theory Spec2Isabelle
  imports Complex_Main
begin

section \<open>JavaScript values\<close>

text \<open>
  The tool arguments and the backend's reply arrive as JSON, so the values the handler of
  \<^verbatim>\<open>free_mcp_hasan.js\<close> sees are JSON values plus \<^verbatim>\<open>undefined\<close> (what reading an absent
  property gives). A number is a finite double; no arithmetic is done on numbers, they are only
  tested for truthiness and handed on, so a rational stands for it. An object is its list of
  own properties (the first binding of a key is the one read).
\<close>

datatype jsval =
    JUndefined
  | JNull
  | JBool bool
  | JNum rat
  | JStr string
  | JArr "jsval list"
  | JObj "(string \<times> jsval) list"

text \<open>ToBoolean: \<^verbatim>\<open>undefined\<close>, \<^verbatim>\<open>null\<close>, \<^verbatim>\<open>false\<close>, \<^verbatim>\<open>0\<close> and \<^verbatim>\<open>""\<close> are falsy, every array
  and every object is truthy.\<close>

fun truthy :: "jsval \<Rightarrow> bool" where
  "truthy JUndefined = False"
| "truthy JNull = False"
| "truthy (JBool b) = b"
| "truthy (JNum x) = (x \<noteq> 0)"
| "truthy (JStr s) = (s \<noteq> [])"
| "truthy (JArr xs) = True"
| "truthy (JObj kvs) = True"

text \<open>The operator \<^verbatim>\<open>a || b\<close>: the left operand when it is truthy, the right one otherwise.\<close>

definition js_or :: "jsval \<Rightarrow> jsval \<Rightarrow> jsval" where
  "js_or a b = (if truthy a then a else b)"

text \<open>Reading a property of a plain object: an absent key reads as \<^verbatim>\<open>undefined\<close>.\<close>

definition own_prop :: "(string \<times> jsval) list \<Rightarrow> string \<Rightarrow> jsval" where
  "own_prop kvs k = (case map_of kvs k of None \<Rightarrow> JUndefined | Some v \<Rightarrow> v)"

text \<open>
  What is thrown is an Error object (the client library rejects with subclasses of
  \<^verbatim>\<open>Error\<close>, and so does a failed property read). Three of its properties matter:
  \<^verbatim>\<open>error.status\<close>, where the client library constructed by \<^verbatim>\<open>new OpenAI\<close> puts the HTTP status
  of a failed request (\<^verbatim>\<open>undefined\<close> on other errors), and which the handler never reads;
  \<^verbatim>\<open>error.response\<close>, any value, whose \<^verbatim>\<open>status\<close> the handler tests; and \<^verbatim>\<open>error.message\<close>,
  a string (\<open>None\<close> for an error without one).
\<close>

record js_error =
  err_status :: jsval
  err_response :: jsval
  err_message :: "string option"

definition TypeError :: "string \<Rightarrow> js_error" where
  "TypeError msg = \<lparr>err_status = JUndefined, err_response = JUndefined, err_message = Some msg\<rparr>"

text \<open>
  \<^verbatim>\<open>v.k\<close> for the keys the handler reads (\<^verbatim>\<open>choices\<close>, \<^verbatim>\<open>message\<close>, \<^verbatim>\<open>content\<close>, \<^verbatim>\<open>status\<close>),
  none of which a string, number, boolean or array has: on \<^verbatim>\<open>undefined\<close> and \<^verbatim>\<open>null\<close> the read
  throws a TypeError (the wording is Node's).
\<close>

fun get_prop :: "jsval \<Rightarrow> string \<Rightarrow> js_error + jsval" where
  "get_prop JUndefined k =
     Inl (TypeError (''Cannot read properties of undefined (reading '' @ [CHR 0x27] @ k @ [CHR 0x27] @ '')''))"
| "get_prop JNull k =
     Inl (TypeError (''Cannot read properties of null (reading '' @ [CHR 0x27] @ k @ [CHR 0x27] @ '')''))"
| "get_prop (JObj kvs) k = Inr (own_prop kvs k)"
| "get_prop v k = Inr JUndefined"

text \<open>\<^verbatim>\<open>v?.k\<close>: \<^verbatim>\<open>undefined\<close> when \<^verbatim>\<open>v\<close> is \<^verbatim>\<open>undefined\<close> or \<^verbatim>\<open>null\<close>, the property otherwise.\<close>

fun opt_prop :: "jsval \<Rightarrow> string \<Rightarrow> jsval" where
  "opt_prop (JObj kvs) k = own_prop kvs k"
| "opt_prop v k = JUndefined"

text \<open>\<^verbatim>\<open>v[0]\<close>: the first element of an array (or \<^verbatim>\<open>undefined\<close> when it is empty), the first
  character of a string, the property \<^verbatim>\<open>"0"\<close> of an object; a TypeError on \<^verbatim>\<open>undefined\<close> and \<^verbatim>\<open>null\<close>.\<close>

fun index0 :: "jsval \<Rightarrow> js_error + jsval" where
  "index0 JUndefined =
     Inl (TypeError (''Cannot read properties of undefined (reading '' @ [CHR 0x27] @ ''0'' @ [CHR 0x27] @ '')''))"
| "index0 JNull =
     Inl (TypeError (''Cannot read properties of null (reading '' @ [CHR 0x27] @ ''0'' @ [CHR 0x27] @ '')''))"
| "index0 (JArr []) = Inr JUndefined"
| "index0 (JArr (x # xs)) = Inr x"
| "index0 (JStr []) = Inr JUndefined"
| "index0 (JStr (c # cs)) = Inr (JStr [c])"
| "index0 (JObj kvs) = Inr (own_prop kvs ''0'')"
| "index0 v = Inr JUndefined"

section \<open>The client registry\<close>

text \<open>The three credentials read from the environment; a variable is a string or is unset.\<close>

record environment =
  HF_TOKEN :: "string option"
  OPENAI_API_KEY :: "string option"
  ANTHROPIC_API_KEY :: "string option"

text \<open>The options an \<^verbatim>\<open>OpenAI\<close> client is constructed with.\<close>

record client =
  baseURL :: "string option"
  apiKey :: string
  defaultHeaders :: "(string \<times> string) list"

record clients =
  huggingface :: "client option"
  openai :: "client option"
  anthropic :: "client option"

text \<open>\<^verbatim>\<open>if (process.env.X)\<close>: the variable is set and not the empty string.\<close>

fun env_set :: "string option \<Rightarrow> bool" where
  "env_set None = False"
| "env_set (Some s) = (s \<noteq> [])"

definition init_clients :: "environment \<Rightarrow> clients" where
  "init_clients env =
     \<lparr>huggingface =
        (if env_set (HF_TOKEN env)
         then Some \<lparr>baseURL = Some ''https://api-inference.huggingface.co/v1'',
                    apiKey = the (HF_TOKEN env), defaultHeaders = []\<rparr>
         else None),
      openai =
        (if env_set (OPENAI_API_KEY env)
         then Some \<lparr>baseURL = None, apiKey = the (OPENAI_API_KEY env), defaultHeaders = []\<rparr>
         else None),
      anthropic =
        (if env_set (ANTHROPIC_API_KEY env)
         then Some \<lparr>baseURL = Some ''https://api.anthropic.com/v1'',
                    apiKey = the (ANTHROPIC_API_KEY env),
                    defaultHeaders = [(''anthropic-version'', ''2023-06-01'')]\<rparr>
         else None)\<rparr>"

text \<open>\<^verbatim>\<open>clients[provider]\<close>.\<close>

definition clients_get :: "clients \<Rightarrow> string \<Rightarrow> client option" where
  "clients_get cs p =
     (if p = ''huggingface'' then huggingface cs
      else if p = ''openai'' then openai cs
      else if p = ''anthropic'' then anthropic cs
      else None)"

text \<open>The catalog \<^verbatim>\<open>MODELS\<close>, in the order of the source.\<close>

definition MODELS :: "(string \<times> string list) list" where
  "MODELS =
     [(''huggingface'',
        [''meta-llama/Llama-3.2-3B-Instruct'',
         ''microsoft/DialoGPT-medium'',
         ''facebook/blenderbot-400M-distill'',
         ''Qwen/Qwen2.5-Coder-32B-Instruct'']),
      (''openai'',
        [''gpt-4o'', ''gpt-4o-mini'', ''gpt-3.5-turbo'', ''o1-preview'', ''o1-mini'']),
      (''anthropic'',
        [''claude-3-5-sonnet-20241022'',
         ''claude-3-5-haiku-20241022'',
         ''claude-3-opus-20240229''])]"

definition getAvailableProviders :: "clients \<Rightarrow> string list" where
  "getAvailableProviders cs =
     (if huggingface cs \<noteq> None then [''huggingface''] else []) @
     (if openai cs \<noteq> None then [''openai''] else []) @
     (if anthropic cs \<noteq> None then [''anthropic''] else [])"

text \<open>\<^verbatim>\<open>defaults[provider]\<close>, \<^verbatim>\<open>undefined\<close> for a name that is not a key of the table (the
  handler passes members of \<open>getAvailableProviders\<close> only).\<close>

definition getDefaultModel :: "string \<Rightarrow> jsval" where
  "getDefaultModel provider =
     (case map_of
        [(''huggingface'', ''meta-llama/Llama-3.2-3B-Instruct''),
         (''openai'', ''gpt-4o-mini''),
         (''anthropic'', ''claude-3-5-haiku-20241022'')] provider of
        None \<Rightarrow> JUndefined
      | Some m \<Rightarrow> JStr m)"

section \<open>Requests, responses and the backend\<close>

text \<open>\<^verbatim>\<open>request.params\<close>: the tool name and the optional \<^verbatim>\<open>arguments\<close> object.\<close>

record tool_request =
  name :: string
  arguments :: "(string \<times> jsval) list option"

record content_item =
  ctype :: string
  ctext :: jsval

record tool_response =
  content :: "content_item list"

definition text_response :: "jsval \<Rightarrow> tool_response" where
  "text_response t = \<lparr>content = [\<lparr>ctype = ''text'', ctext = t\<rparr>]\<rparr>"

text \<open>What the \<^verbatim>\<open>async\<close> handler's promise settles with.\<close>

datatype handler_outcome = Returns tool_response | Throws js_error

text \<open>The argument of \<^verbatim>\<open>client.chat.completions.create\<close>.\<close>

record request_params =
  model :: jsval
  messages :: jsval
  max_tokens :: jsval
  temperature :: jsval

text \<open>The awaited call either resolves with the parsed reply or rejects with an error. The
  backend is a parameter of the model; every call made is recorded, in order.\<close>

datatype backend_outcome = Resolves jsval | Rejects js_error

type_synonym backend = "client \<Rightarrow> request_params \<Rightarrow> backend_outcome"

type_synonym invocation = "client \<times> request_params"

section \<open>The tool-call handler\<close>

text \<open>
  The \<^verbatim>\<open>catch\<close> block of both generation tools: the status of \<^verbatim>\<open>error.response\<close> is tested
  first (401, then 429), then the error's message; the text returned is \<^verbatim>\<open>Error: \<close> followed by
  the message chosen. In what they return, the two blocks of the source differ in the initial
  value of \<^verbatim>\<open>errorMessage\<close> only, which is the parameter \<open>fallback\<close>.
\<close>

definition error_reply :: "string \<Rightarrow> string \<Rightarrow> js_error \<Rightarrow> tool_response" where
  "error_reply fallback selectedProvider error =
     text_response (JStr (''Error: '' @
       (if opt_prop (err_response error) ''status'' = JNum 401
        then ''Authentication failed for '' @ selectedProvider @ ''. Please check your API key.''
        else if opt_prop (err_response error) ''status'' = JNum 429
        then ''Rate limit exceeded for '' @ selectedProvider @ ''. Please try again later.''
        else (case err_message error of
                None \<Rightarrow> fallback
              | Some m \<Rightarrow> if m \<noteq> [] then m else fallback))))"

text \<open>\<^verbatim>\<open>response.choices[0]?.message?.content || 'No response generated'\<close>. The reads of
  \<^verbatim>\<open>response.choices\<close> and of its element 0 are not optional and may throw.\<close>

definition generatedText :: "jsval \<Rightarrow> js_error + jsval" where
  "generatedText response =
     (case get_prop response ''choices'' of
        Inl e \<Rightarrow> Inl e
      | Inr choices \<Rightarrow>
          (case index0 choices of
             Inl e \<Rightarrow> Inl e
           | Inr choice \<Rightarrow>
               Inr (js_or (opt_prop (opt_prop choice ''message'') ''content'')
                          (JStr ''No response generated''))))"

text \<open>
  The \<^verbatim>\<open>try\<close> block with its \<^verbatim>\<open>catch\<close>: one call of the selected client, then the extraction of
  the text; whatever is thrown inside (by the call, by the extraction, or by reading
  \<^verbatim>\<open>client.chat\<close> of a missing client) ends in \<open>error_reply\<close>. The second component is the
  list of backend calls made.
\<close>

definition complete ::
  "string \<Rightarrow> backend \<Rightarrow> string \<Rightarrow> client option \<Rightarrow> request_params
     \<Rightarrow> handler_outcome \<times> invocation list" where
  "complete fallback create selectedProvider client requestParams =
     (case client of
        None \<Rightarrow>
          (Returns (error_reply fallback selectedProvider
             (TypeError (''Cannot read properties of undefined (reading '' @ [CHR 0x27] @ ''chat'' @ [CHR 0x27] @ '')''))),
           [])
      | Some c \<Rightarrow>
          (case create c requestParams of
             Rejects error \<Rightarrow>
               (Returns (error_reply fallback selectedProvider error), [(c, requestParams)])
           | Resolves response \<Rightarrow>
               (case generatedText response of
                  Inl error \<Rightarrow>
                    (Returns (error_reply fallback selectedProvider error), [(c, requestParams)])
                | Inr t \<Rightarrow> (Returns (text_response t), [(c, requestParams)]))))"

text \<open>\<^verbatim>\<open>availableProviders.includes(provider)\<close>: only a string can equal a provider name.\<close>

fun includes_js :: "string list \<Rightarrow> jsval \<Rightarrow> bool" where
  "includes_js xs (JStr s) = (s \<in> set xs)"
| "includes_js xs v = False"

text \<open>\<^verbatim>\<open>provider && availableProviders.includes(provider) ? provider : availableProviders[0]\<close>,
  with the first entry of the (non-empty) list passed as \<open>first\<close>.\<close>

definition selectedProvider :: "jsval \<Rightarrow> string list \<Rightarrow> string \<Rightarrow> string" where
  "selectedProvider provider availableProviders first =
     (if truthy provider \<and> includes_js availableProviders provider
      then (case provider of JStr p \<Rightarrow> p | _ \<Rightarrow> first)
      else first)"

definition no_providers_help :: string where
  "no_providers_help =
     ''No AI providers configured. Please set one of the following environment variables:\<newline>'' @
     ''- HF_TOKEN (for Hugging Face)\<newline>'' @
     ''- OPENAI_API_KEY (for OpenAI)\<newline>'' @
     ''- ANTHROPIC_API_KEY (for Anthropic)\<newline>'' @
     ''\<newline>'' @
     ''Then restart the server.''"

text \<open>The branch \<^verbatim>\<open>name === 'generate_text'\<close>. Destructuring \<^verbatim>\<open>args\<close> throws when the request
  carries no \<^verbatim>\<open>arguments\<close>.\<close>

definition generate_text ::
  "clients \<Rightarrow> backend \<Rightarrow> (string \<times> jsval) list option \<Rightarrow> handler_outcome \<times> invocation list" where
  "generate_text cs create args =
     (case args of
        None \<Rightarrow>
          (Throws (TypeError (''Cannot destructure property '' @ [CHR 0x27] @ ''prompt'' @ [CHR 0x27] @
                              '' of '' @ [CHR 0x27] @ ''args'' @ [CHR 0x27] @ '' as it is undefined.'')), [])
      | Some a \<Rightarrow>
          if \<not> truthy (own_prop a ''prompt'')
          then (Returns (text_response (JStr ''Error: Prompt is required'')), [])
          else
            (case getAvailableProviders cs of
               [] \<Rightarrow> (Returns (text_response (JStr no_providers_help)), [])
             | first # rest \<Rightarrow>
                 complete ''Failed to generate text'' create
                   (selectedProvider (own_prop a ''provider'') (first # rest) first)
                   (clients_get cs (selectedProvider (own_prop a ''provider'') (first # rest) first))
                   \<lparr>model = js_or (own_prop a ''model'')
                              (getDefaultModel (selectedProvider (own_prop a ''provider'') (first # rest) first)),
                    messages = JArr [JObj [(''role'', JStr ''user''), (''content'', own_prop a ''prompt'')]],
                    max_tokens = js_or (own_prop a ''max_tokens'') (JNum 1024),
                    temperature = js_or (own_prop a ''temperature'') (JNum (7 / 10))\<rparr>))"

text \<open>\<^verbatim>\<open>String.prototype.toUpperCase\<close> on the letters a to z; other characters are kept (the
  provider names are lower-case ASCII).\<close>

definition toUpperCase :: "string \<Rightarrow> string" where
  "toUpperCase s =
     map (\<lambda>c. case map_of (zip ''abcdefghijklmnopqrstuvwxyz'' ''ABCDEFGHIJKLMNOPQRSTUVWXYZ'') c of
                 None \<Rightarrow> c
               | Some u \<Rightarrow> u) s"

text \<open>The inner loop of \<^verbatim>\<open>list_models\<close>: one line per model appended to \<^verbatim>\<open>modelList\<close>.\<close>

fun model_lines :: "string \<Rightarrow> string list \<Rightarrow> string \<Rightarrow> string" where
  "model_lines provider [] modelList = modelList"
| "model_lines provider (m # ms) modelList =
     model_lines provider ms
       (modelList @ ''- '' @ m @
          (if JStr m = getDefaultModel provider then '' (default)'' else []) @ ''\<newline>'')"

text \<open>The outer loop: a heading, the provider's lines and an empty line. Iterating
  \<^verbatim>\<open>MODELS[provider]\<close> throws for a provider without a catalog.\<close>

fun provider_blocks :: "string list \<Rightarrow> string \<Rightarrow> js_error + string" where
  "provider_blocks [] modelList = Inr modelList"
| "provider_blocks (provider # ps) modelList =
     (case map_of MODELS provider of
        None \<Rightarrow> Inl (TypeError ''MODELS[provider] is not iterable'')
      | Some ms \<Rightarrow>
          provider_blocks ps
            (model_lines provider ms (modelList @ ''**'' @ toUpperCase provider @ '':**\<newline>'')
               @ ''\<newline>''))"

text \<open>The branch \<^verbatim>\<open>name === 'list_models'\<close>; it never reads \<^verbatim>\<open>args\<close> and calls no client.\<close>

definition list_models :: "clients \<Rightarrow> handler_outcome \<times> invocation list" where
  "list_models cs =
     (case getAvailableProviders cs of
        [] \<Rightarrow> (Returns (text_response (JStr ''No AI providers configured.'')), [])
      | first # rest \<Rightarrow>
          (case provider_blocks (first # rest) ''Available AI Models:\<newline>\<newline>'' of
             Inl e \<Rightarrow> (Throws e, [])
           | Inr modelList \<Rightarrow> (Returns (text_response (JStr modelList)), [])))"

text \<open>The branch \<^verbatim>\<open>name === 'chat_conversation'\<close>. The test
  \<^verbatim>\<open>!messages || !Array.isArray(messages) || messages.length === 0\<close> is evaluated left to right.\<close>

definition chat_conversation ::
  "clients \<Rightarrow> backend \<Rightarrow> (string \<times> jsval) list option \<Rightarrow> handler_outcome \<times> invocation list" where
  "chat_conversation cs create args =
     (case args of
        None \<Rightarrow>
          (Throws (TypeError (''Cannot destructure property '' @ [CHR 0x27] @ ''messages'' @ [CHR 0x27] @
                              '' of '' @ [CHR 0x27] @ ''args'' @ [CHR 0x27] @ '' as it is undefined.'')), [])
      | Some a \<Rightarrow>
          if \<not> truthy (own_prop a ''messages'')
          then (Returns (text_response (JStr ''Error: Messages array is required'')), [])
          else
            (case own_prop a ''messages'' of
               JArr ms \<Rightarrow>
                 if length ms = 0
                 then (Returns (text_response (JStr ''Error: Messages array is required'')), [])
                 else
                   (case getAvailableProviders cs of
                      [] \<Rightarrow> (Returns (text_response (JStr ''No AI providers configured.'')), [])
                    | first # rest \<Rightarrow>
                        complete ''Failed to process chat'' create
                          (selectedProvider (own_prop a ''provider'') (first # rest) first)
                          (clients_get cs (selectedProvider (own_prop a ''provider'') (first # rest) first))
                          \<lparr>model = js_or (own_prop a ''model'')
                                     (getDefaultModel (selectedProvider (own_prop a ''provider'') (first # rest) first)),
                           messages = own_prop a ''messages'',
                           max_tokens = js_or (own_prop a ''max_tokens'') (JNum 1024),
                           temperature = js_or (own_prop a ''temperature'') (JNum (7 / 10))\<rparr>)
             | _ \<Rightarrow> (Returns (text_response (JStr ''Error: Messages array is required'')), [])))"

text \<open>The handler registered for tool calls: the three branches are tried in the order of the
  source, and any other name is answered with \<^verbatim>\<open>Unknown tool\<close>.\<close>

definition handleToolCall ::
  "clients \<Rightarrow> backend \<Rightarrow> tool_request \<Rightarrow> handler_outcome \<times> invocation list" where
  "handleToolCall cs create request =
     (if name request = ''generate_text'' then generate_text cs create (arguments request)
      else if name request = ''list_models'' then list_models cs
      else if name request = ''chat_conversation'' then chat_conversation cs create (arguments request)
      else (Returns (text_response (JStr (''Unknown tool: '' @ name request))), []))"

section \<open>The declared input schema\<close>

text \<open>
  The numeric fields of the schemas returned for \<^verbatim>\<open>ListToolsRequestSchema\<close>, the same for
  \<^verbatim>\<open>generate_text\<close> and \<^verbatim>\<open>chat_conversation\<close>: \<^verbatim>\<open>max_tokens\<close> has the default 1024 and no bounds,
  \<^verbatim>\<open>temperature\<close> the default 0.7, the minimum 0.0 and the maximum 2.0. The handler does not
  read the schemas.
\<close>

record number_schema =
  schema_default :: rat
  schema_minimum :: "rat option"
  schema_maximum :: "rat option"

definition max_tokens_schema :: number_schema where
  "max_tokens_schema = \<lparr>schema_default = 1024, schema_minimum = None, schema_maximum = None\<rparr>"

definition temperature_schema :: number_schema where
  "temperature_schema =
     \<lparr>schema_default = 7 / 10, schema_minimum = Some 0, schema_maximum = Some 2\<rparr>"

definition in_declared_range :: "number_schema \<Rightarrow> rat \<Rightarrow> bool" where
  "in_declared_range sch x =
     ((case schema_minimum sch of None \<Rightarrow> True | Some lo \<Rightarrow> lo \<le> x) \<and>
      (case schema_maximum sch of None \<Rightarrow> True | Some hi \<Rightarrow> x \<le> hi))"

section \<open>Reading a response text\<close>

text \<open>Whether \<open>s\<close> occurs in \<open>t\<close> as a contiguous piece, and the lines of a text.\<close>

fun starts_with :: "string \<Rightarrow> string \<Rightarrow> bool" where
  "starts_with t [] = True"
| "starts_with [] (c # cs) = False"
| "starts_with (d # t) (c # cs) = (d = c \<and> starts_with t cs)"

fun includes_str :: "string \<Rightarrow> string \<Rightarrow> bool" where
  "includes_str [] s = (s = [])"
| "includes_str (d # t) s = (starts_with (d # t) s \<or> includes_str t s)"

fun lines_of :: "string \<Rightarrow> string list" where
  "lines_of [] = [[]]"
| "lines_of (c # cs) =
     (if c = CHR 0x0A then [] # lines_of cs
      else (case lines_of cs of [] \<Rightarrow> [[c]] | l # ls \<Rightarrow> (c # l) # ls))"

text \<open>\<^verbatim>\<open>Array.isArray\<close>.\<close>

fun isArray :: "jsval \<Rightarrow> bool" where
  "isArray (JArr xs) = True"
| "isArray v = False"

section \<open>Sample registries and backends\<close>

text \<open>A registry with all three credentials set, one with none (an empty variable counts as
  unset), a backend that answers every call with the same reply and one that rejects every
  call with the same error.\<close>

definition all_clients :: clients where
  "all_clients =
     init_clients \<lparr>HF_TOKEN = Some ''hf_key'', OPENAI_API_KEY = Some ''sk_key'',
                   ANTHROPIC_API_KEY = Some ''ant_key''\<rparr>"

definition no_clients :: clients where
  "no_clients =
     init_clients \<lparr>HF_TOKEN = None, OPENAI_API_KEY = Some [], ANTHROPIC_API_KEY = None\<rparr>"

definition replying :: "jsval \<Rightarrow> backend" where
  "replying r c ps = Resolves r"

definition failing :: "js_error \<Rightarrow> backend" where
  "failing e c ps = Rejects e"

section \<open>Vocabulary for the two generation tools\<close>

text \<open>
  A request passes the validation of its branch when it carries an arguments object and is
  either a \<^verbatim>\<open>generate_text\<close> call with a truthy \<^verbatim>\<open>prompt\<close> or a \<^verbatim>\<open>chat_conversation\<close> call whose
  \<^verbatim>\<open>messages\<close> is a non-empty array. The messages sent and the initial value of
  \<^verbatim>\<open>errorMessage\<close> are where the two branches of the source differ.
\<close>

definition passes_validation :: "tool_request \<Rightarrow> (string \<times> jsval) list \<Rightarrow> bool" where
  "passes_validation request a =
     (arguments request = Some a \<and>
      (name request = ''generate_text'' \<and> truthy (own_prop a ''prompt'') \<or>
       name request = ''chat_conversation'' \<and> isArray (own_prop a ''messages'') \<and>
         own_prop a ''messages'' \<noteq> JArr []))"

definition sent_messages :: "tool_request \<Rightarrow> (string \<times> jsval) list \<Rightarrow> jsval" where
  "sent_messages request a =
     (if name request = ''generate_text''
      then JArr [JObj [(''role'', JStr ''user''), (''content'', own_prop a ''prompt'')]]
      else own_prop a ''messages'')"

definition fallback_message :: "tool_request \<Rightarrow> string" where
  "fallback_message request =
     (if name request = ''generate_text'' then ''Failed to generate text''
      else ''Failed to process chat'')"


section \<open>Vocabulary for the model listing\<close>

text \<open>
  The catalog of a provider (empty for a name without one); how many lines of a text are the
  entry of a model, with or without the default mark; how many are its entry with the mark;
  the heading lines of a text. Entries are counted as whole lines, so that \<^verbatim>\<open>gpt-4o\<close> is not
  counted inside the entry of \<^verbatim>\<open>gpt-4o-mini\<close>.
\<close>

definition modelsFor :: "string \<Rightarrow> string list" where
  "modelsFor p = (case map_of MODELS p of None \<Rightarrow> [] | Some ms \<Rightarrow> ms)"

definition listed :: "string \<Rightarrow> string \<Rightarrow> nat" where
  "listed t m =
     length (filter (\<lambda>l. l = ''- '' @ m \<or> l = ''- '' @ m @ '' (default)'') (lines_of t))"

definition marked_default :: "string \<Rightarrow> string \<Rightarrow> nat" where
  "marked_default t m = count_list (lines_of t) (''- '' @ m @ '' (default)'')"

definition headings :: "string \<Rightarrow> string list" where
  "headings t = filter (\<lambda>l. starts_with l ''**'') (lines_of t)"

text \<open>What is stated of the listing of the providers \<open>avail\<close>: one heading per provider in
  order, every model of every catalog entered once and marked exactly when it is the default,
  and one default per catalog. \<open>renders_catalog\<close> says it of the text the two loops build,
  and \<open>configurations\<close> are the lists the registry can return.\<close>

definition catalog_rendered :: "string list \<Rightarrow> string \<Rightarrow> bool" where
  "catalog_rendered avail t =
     (headings t = map (\<lambda>p. ''**'' @ toUpperCase p @ '':**'') avail \<and>
      (\<forall>p \<in> set avail. \<forall>m \<in> set (modelsFor p).
          listed t m = 1 \<and> marked_default t m = (if JStr m = getDefaultModel p then 1 else 0)) \<and>
      (\<forall>p \<in> set avail. length (filter (\<lambda>m. JStr m = getDefaultModel p) (modelsFor p)) = 1))"

definition renders_catalog :: "string list \<Rightarrow> bool" where
  "renders_catalog avail =
     (case provider_blocks avail ''Available AI Models:\<newline>\<newline>'' of
        Inl e \<Rightarrow> False
      | Inr t \<Rightarrow> catalog_rendered avail t)"

definition configurations :: "string list list" where
  "configurations = subseqs [''huggingface'', ''openai'', ''anthropic'']"


section \<open>The path to the backend call\<close>

lemmas handler_defs =
  handleToolCall_def generate_text_def chat_conversation_def list_models_def complete_def
  generatedText_def error_reply_def text_response_def TypeError_def selectedProvider_def
  getAvailableProviders_def getDefaultModel_def clients_get_def own_prop_def js_or_def
  init_clients_def all_clients_def no_clients_def replying_def failing_def

lemma starts_with_append: "starts_with (s @ b) s"
  by (induction s) simp_all

lemma includes_str_append: "includes_str (a @ s @ b) s"
proof (induction a)
  case Nil
  show ?case
  proof (cases "s @ b")
    case Nil then show ?thesis by simp
  next
    case (Cons d t)
    have "starts_with (s @ b) s" by (rule starts_with_append)
    with Cons show ?thesis by simp
  qed
next
  case (Cons c a) then show ?case by simp
qed







lemma handleToolCall_invokes:
  assumes "passes_validation request a" and "getAvailableProviders cs = first # rest"
  shows "handleToolCall cs create request =
           complete (fallback_message request) create
             (selectedProvider (own_prop a ''provider'') (first # rest) first)
             (clients_get cs (selectedProvider (own_prop a ''provider'') (first # rest) first))
             \<lparr>model = js_or (own_prop a ''model'')
                        (getDefaultModel (selectedProvider (own_prop a ''provider'') (first # rest) first)),
              messages = sent_messages request a,
              max_tokens = js_or (own_prop a ''max_tokens'') (JNum 1024),
              temperature = js_or (own_prop a ''temperature'') (JNum (7 / 10))\<rparr>"
proof -
  from assms(1) have args: "arguments request = Some a"
    by (simp add: passes_validation_def)
  from assms(1) consider
      (gen) "name request = ''generate_text''" "truthy (own_prop a ''prompt'')"
    | (chat) "name request = ''chat_conversation''" "isArray (own_prop a ''messages'')"
        "own_prop a ''messages'' \<noteq> JArr []"
    unfolding passes_validation_def by blast
  then show ?thesis
  proof cases
    case gen
    then show ?thesis
      using args assms(2)
      by (simp add: handleToolCall_def generate_text_def sent_messages_def fallback_message_def)
  next
    case chat
    then obtain m ms where ms: "own_prop a ''messages'' = JArr (m # ms)"
      by (cases "own_prop a ''messages''" rule: isArray.cases) (auto intro: list.exhaust)
    with chat(1) show ?thesis
      using args assms(2)
      by (simp add: handleToolCall_def chat_conversation_def sent_messages_def fallback_message_def)
  qed
qed



lemma all_clients_available:
  "getAvailableProviders all_clients = [''huggingface'', ''openai'', ''anthropic'']"
  by (simp add: all_clients_def init_clients_def getAvailableProviders_def)

lemma handleToolCall_rejected:
  assumes "passes_validation request a" and "getAvailableProviders cs = first # rest"
    and "p = selectedProvider (own_prop a ''provider'') (first # rest) first"
    and "clients_get cs p = Some c"
    and "\<forall>ps. create c ps = Rejects e"
  shows "fst (handleToolCall cs create request) = Returns (error_reply (fallback_message request) p e)"
  using handleToolCall_invokes [OF assms(1,2), of create] assms(3,4,5)
  by (simp add: complete_def)

lemma auth_text_includes:
  "includes_str (''Error: Authentication failed for '' @ p @ ''. Please check your API key.'')
     ''Authentication failed''"
  "includes_str (''Error: Authentication failed for '' @ p @ ''. Please check your API key.'') p"
  using includes_str_append [of "''Error: ''" "''Authentication failed''"
          "'' for '' @ p @ ''. Please check your API key.''"]
        includes_str_append [of "''Error: Authentication failed for ''" p
          "''. Please check your API key.''"]
  by (simp_all del: includes_str.simps)

lemma rate_text_includes:
  "includes_str (''Error: Rate limit exceeded for '' @ p @ ''. Please try again later.'')
     ''Rate limit exceeded''"
  "includes_str (''Error: Rate limit exceeded for '' @ p @ ''. Please try again later.'') p"
  using includes_str_append [of "''Error: ''" "''Rate limit exceeded''"
          "'' for '' @ p @ ''. Please try again later.''"]
        includes_str_append [of "''Error: Rate limit exceeded for ''" p
          "''. Please try again later.''"]
  by (simp_all del: includes_str.simps)



text \<open>The listing, checked on each of the eight lists of providers the registry can return.\<close>

lemma available_configuration: "getAvailableProviders cs \<in> set configurations"
  by (simp add: configurations_def getAvailableProviders_def Let_def)

lemma every_configuration_renders:
  "list_all (\<lambda>avail. avail = [] \<or> renders_catalog avail) configurations"
  by code_simp

lemma available_renders:
  assumes "getAvailableProviders cs \<noteq> []"
  shows "renders_catalog (getAvailableProviders cs)"
  using every_configuration_renders available_configuration [of cs] assms
  unfolding list_all_iff by blast

lemma no_provider_no_call:
  assumes "getAvailableProviders cs = []"
  shows "snd (handleToolCall cs create request) = []"
proof -
  have g: "snd (generate_text cs create args) = []" for args
    using assms by (cases args) (simp_all add: generate_text_def)
  have c: "snd (chat_conversation cs create args) = []" for args
  proof (cases args)
    case None
    then show ?thesis by (simp add: chat_conversation_def)
  next
    case (Some a)
    then show ?thesis
      using assms by (cases "own_prop a ''messages''") (simp_all add: chat_conversation_def)
  qed
  have l: "snd (list_models cs) = []"
    using assms by (simp add: list_models_def)
  show ?thesis
    using g c l by (simp add: handleToolCall_def)
qed

lemma help_names_slots:
  "includes_str no_providers_help ''HF_TOKEN''"
  "includes_str no_providers_help ''OPENAI_API_KEY''"
  "includes_str no_providers_help ''ANTHROPIC_API_KEY''"
  by (simp_all add: no_providers_help_def)

lemma no_clients_available: "getAvailableProviders no_clients = []"
  by (simp add: no_clients_def init_clients_def getAvailableProviders_def)

text \<open>A reply without \<^verbatim>\<open>choices\<close> is answered with the text of the TypeError caught, not
  with the placeholder.\<close>

lemma reply_without_choices:
  "fst (handleToolCall all_clients (replying (JObj []))
          \<lparr>name = ''generate_text'', arguments = Some [(''prompt'', JStr ''hi'')]\<rparr>)
   = Returns (text_response
       (JStr (''Error: Cannot read properties of undefined (reading '' @ [CHR 0x27] @ ''0'' @ [CHR 0x27] @ '')'')))"
  by (simp add: handler_defs)


section \<open>Input validation\<close>

text \<open>
  Claim C7. A \<^verbatim>\<open>generate_text\<close> call whose \<^verbatim>\<open>prompt\<close> is missing or empty is to be answered
  with the fixed message about the required prompt, without a backend call. A call that carries
  no arguments object has no prompt; for it the handler returns no response at all: the
  destructuring of \<^verbatim>\<open>args\<close>, before the test of the prompt and outside every \<^verbatim>\<open>try\<close>, throws
  a TypeError, for every registry and backend. No backend is called.
\<close>

theorem generate_text_without_arguments:
  "handleToolCall cs create \<lparr>name = ''generate_text'', arguments = None\<rparr> =
     (Throws (TypeError (''Cannot destructure property '' @ [CHR 0x27] @ ''prompt'' @ [CHR 0x27] @
                         '' of '' @ [CHR 0x27] @ ''args'' @ [CHR 0x27] @ '' as it is undefined.'')), [])"
  by (simp add: handleToolCall_def generate_text_def)

text \<open>
  With an arguments object the test \<^verbatim>\<open>if (!prompt)\<close> does what the claim says: a missing or
  empty \<^verbatim>\<open>prompt\<close> is answered with \<^verbatim>\<open>Error: Prompt is required\<close>, no backend is called, and
  the registry is not consulted (the answer is the same for every registry).
\<close>

lemma generate_text_prompt_required:
  assumes "name request = ''generate_text''"
    and "arguments request = Some a"
    and "map_of a ''prompt'' = None \<or> map_of a ''prompt'' = Some (JStr [])"
  shows "handleToolCall cs create request =
           (Returns (text_response (JStr ''Error: Prompt is required'')), [])"
  using assms by (auto simp: handleToolCall_def generate_text_def own_prop_def)

lemma generate_text_prompt_required_example:
  "handleToolCall all_clients (replying JNull)
     \<lparr>name = ''generate_text'',
      arguments = Some [(''prompt'', JStr []), (''provider'', JStr ''openai'')]\<rparr>
   = (Returns (text_response (JStr ''Error: Prompt is required'')), [])"
  using generate_text_prompt_required
    [of "\<lparr>name = ''generate_text'',
          arguments = Some [(''prompt'', JStr []), (''provider'', JStr ''openai'')]\<rparr>"
        "[(''prompt'', JStr []), (''provider'', JStr ''openai'')]" all_clients "replying JNull"]
  by simp

text \<open>
  Claim C8. A \<^verbatim>\<open>chat_conversation\<close> call whose \<^verbatim>\<open>messages\<close> is absent, not an array or empty is
  to be answered with the fixed message about the required messages, without a backend call.
  A call that carries no arguments object has no messages; for it the handler returns no
  response at all: the destructuring of \<^verbatim>\<open>args\<close>, before the test of the messages and outside
  every \<^verbatim>\<open>try\<close>, throws a TypeError, for every registry and backend. No backend is called.
\<close>

theorem chat_conversation_without_arguments:
  "handleToolCall cs create \<lparr>name = ''chat_conversation'', arguments = None\<rparr> =
     (Throws (TypeError (''Cannot destructure property '' @ [CHR 0x27] @ ''messages'' @ [CHR 0x27] @
                         '' of '' @ [CHR 0x27] @ ''args'' @ [CHR 0x27] @ '' as it is undefined.'')), [])"
  by (simp add: handleToolCall_def chat_conversation_def)

text \<open>
  With an arguments object the test of \<^verbatim>\<open>messages\<close> does what the claim says: when it is absent,
  not an array, or the empty array, the answer is \<^verbatim>\<open>Error: Messages array is required\<close> and
  no backend is called.
\<close>

lemma chat_messages_required:
  assumes "name request = ''chat_conversation''"
    and "arguments request = Some a"
    and "map_of a ''messages'' = None \<or> \<not> isArray (own_prop a ''messages'')
         \<or> own_prop a ''messages'' = JArr []"
  shows "handleToolCall cs create request =
           (Returns (text_response (JStr ''Error: Messages array is required'')), [])"
proof -
  have "chat_conversation cs create (Some a) =
          (Returns (text_response (JStr ''Error: Messages array is required'')), [])"
    using assms(3)
    by (cases "own_prop a ''messages''") (auto simp: chat_conversation_def own_prop_def)
  with assms(1,2) show ?thesis by (simp add: handleToolCall_def)
qed

lemma chat_messages_required_example:
  "handleToolCall all_clients (replying JNull)
     \<lparr>name = ''chat_conversation'', arguments = Some [(''messages'', JStr ''hello'')]\<rparr>
   = (Returns (text_response (JStr ''Error: Messages array is required'')), [])"
  using chat_messages_required
    [of "\<lparr>name = ''chat_conversation'', arguments = Some [(''messages'', JStr ''hello'')]\<rparr>"
        "[(''messages'', JStr ''hello'')]" all_clients "replying JNull"]
  by (simp add: own_prop_def)

section \<open>No provider configured\<close>

text \<open>
  Claim C1, as amended. When no provider is configured, no backend is called, whatever the
  request. A \<^verbatim>\<open>generate_text\<close> call that passes validation is answered with the text that names
  the three variables \<^verbatim>\<open>HF_TOKEN\<close>, \<^verbatim>\<open>OPENAI_API_KEY\<close> and \<^verbatim>\<open>ANTHROPIC_API_KEY\<close>; a
  \<^verbatim>\<open>list_models\<close> call, and a \<^verbatim>\<open>chat_conversation\<close> call that passes validation, are answered
  with the short text \<^verbatim>\<open>No AI providers configured.\<close>
\<close>

theorem no_backend_configured:
  assumes "getAvailableProviders cs = []"
  shows "snd (handleToolCall cs create request) = []
       \<and> (name request = ''generate_text'' \<and> passes_validation request a \<longrightarrow>
            fst (handleToolCall cs create request) = Returns (text_response (JStr no_providers_help)))
       \<and> includes_str no_providers_help ''HF_TOKEN''
       \<and> includes_str no_providers_help ''OPENAI_API_KEY''
       \<and> includes_str no_providers_help ''ANTHROPIC_API_KEY''
       \<and> (name request = ''list_models'' \<longrightarrow>
            fst (handleToolCall cs create request) =
              Returns (text_response (JStr ''No AI providers configured.'')))
       \<and> (name request = ''chat_conversation'' \<and> passes_validation request a \<longrightarrow>
            fst (handleToolCall cs create request) =
              Returns (text_response (JStr ''No AI providers configured.'')))"
proof (intro conjI impI)
  show "snd (handleToolCall cs create request) = []"
    using assms by (rule no_provider_no_call)
next
  assume "name request = ''generate_text'' \<and> passes_validation request a"
  then show "fst (handleToolCall cs create request) =
               Returns (text_response (JStr no_providers_help))"
    using assms by (auto simp: passes_validation_def handleToolCall_def generate_text_def)
next
  assume "name request = ''list_models''"
  then show "fst (handleToolCall cs create request) =
               Returns (text_response (JStr ''No AI providers configured.''))"
    using assms by (simp add: handleToolCall_def list_models_def)
next
  assume "name request = ''chat_conversation'' \<and> passes_validation request a"
  then have n: "name request = ''chat_conversation''" and args: "arguments request = Some a"
    and arr: "isArray (own_prop a ''messages'')" and ne: "own_prop a ''messages'' \<noteq> JArr []"
    by (auto simp: passes_validation_def)
  from arr ne obtain m ms where "own_prop a ''messages'' = JArr (m # ms)"
    by (cases "own_prop a ''messages''" rule: isArray.cases) (auto intro: list.exhaust)
  then show "fst (handleToolCall cs create request) =
               Returns (text_response (JStr ''No AI providers configured.''))"
    using n args assms by (simp add: handleToolCall_def chat_conversation_def)
qed (rule help_names_slots)+

theorem no_backend_configured_witness:
  "fst (handleToolCall no_clients (replying JNull)
          \<lparr>name = ''generate_text'', arguments = Some [(''prompt'', JStr ''hi'')]\<rparr>)
     = Returns (text_response (JStr no_providers_help))
   \<and> snd (handleToolCall no_clients (replying JNull)
          \<lparr>name = ''generate_text'', arguments = Some [(''prompt'', JStr ''hi'')]\<rparr>) = []"
proof -
  let ?a = "[(''prompt'', JStr ''hi'')]"
  let ?r = "\<lparr>name = ''generate_text'', arguments = Some ?a\<rparr>"
  have v: "name ?r = ''generate_text'' \<and> passes_validation ?r ?a"
    by (simp add: passes_validation_def own_prop_def)
  note th = no_backend_configured [OF no_clients_available, of "replying JNull" ?r ?a]
  from th [THEN conjunct2, THEN conjunct1, THEN mp, OF v] th [THEN conjunct1]
  show ?thesis by (rule conjI)
qed

text \<open>The claim as stated fails for \<^verbatim>\<open>list_models\<close> and \<^verbatim>\<open>chat_conversation\<close>: their text names
  none of the three variables.\<close>

theorem short_message_counterexample:
  "getAvailableProviders no_clients = []
   \<and> fst (handleToolCall no_clients (replying JNull) \<lparr>name = ''list_models'', arguments = Some []\<rparr>)
       = Returns (text_response (JStr ''No AI providers configured.''))
   \<and> fst (handleToolCall no_clients (replying JNull)
            \<lparr>name = ''chat_conversation'',
             arguments = Some [(''messages'', JArr [JObj [(''role'', JStr ''user''), (''content'', JStr ''hi'')]])]\<rparr>)
       = Returns (text_response (JStr ''No AI providers configured.''))
   \<and> \<not> includes_str ''No AI providers configured.'' ''HF_TOKEN''
   \<and> \<not> includes_str ''No AI providers configured.'' ''OPENAI_API_KEY''
   \<and> \<not> includes_str ''No AI providers configured.'' ''ANTHROPIC_API_KEY''"
  by (simp add: handler_defs)


section \<open>Provider and model selection\<close>








section \<open>Request parameters\<close>



text \<open>
  Claim C3. The request sent carries the resolved model, the messages, and the caller's
  \<^verbatim>\<open>max_tokens\<close> and \<^verbatim>\<open>temperature\<close> when present. At the input below the caller supplies the
  temperature 0, inside the range the tool declares, and the backend is called with 0.7.
\<close>

theorem temperature_zero_not_passed:
  "in_declared_range temperature_schema 0
   \<and> snd (handleToolCall all_clients (replying JNull)
      \<lparr>name = ''generate_text'',
       arguments = Some [(''prompt'', JStr ''hi''), (''max_tokens'', JNum 256), (''temperature'', JNum 0)]\<rparr>)
   = [(\<lparr>baseURL = Some ''https://api-inference.huggingface.co/v1'', apiKey = ''hf_key'',
        defaultHeaders = []\<rparr>,
       \<lparr>model = JStr ''meta-llama/Llama-3.2-3B-Instruct'',
        messages = JArr [JObj [(''role'', JStr ''user''), (''content'', JStr ''hi'')]],
        max_tokens = JNum 256,
        temperature = JNum (7 / 10)\<rparr>)]"
  by (simp add: handler_defs in_declared_range_def temperature_schema_def)


section \<open>Backend errors and replies\<close>

text \<open>
  Claim C2. An error of the backend call with status 401 is to be answered with a text
  containing \<^verbatim>\<open>Authentication failed\<close> and the provider, one with status 429 with a text
  containing \<^verbatim>\<open>Rate limit exceeded\<close> and the provider. The errors of the client the registry
  constructs carry the status in \<^verbatim>\<open>error.status\<close> and have no \<^verbatim>\<open>response\<close>, while the \<^verbatim>\<open>catch\<close>
  blocks test \<^verbatim>\<open>error.response?.status\<close>: both errors are caught, and both fall through to the
  branch of the error's own message, so the texts contain neither phrase.
\<close>

theorem client_status_not_classified:
  "fst (handleToolCall all_clients
          (failing \<lparr>err_status = JNum 401, err_response = JUndefined,
                     err_message = Some ''401 Incorrect API key provided''\<rparr>)
          \<lparr>name = ''generate_text'',
           arguments = Some [(''prompt'', JStr ''hi''), (''provider'', JStr ''openai'')]\<rparr>)
     = Returns (text_response (JStr ''Error: 401 Incorrect API key provided''))
   \<and> \<not> includes_str ''Error: 401 Incorrect API key provided'' ''Authentication failed''
   \<and> \<not> includes_str ''Error: 401 Incorrect API key provided'' ''openai''
   \<and> fst (handleToolCall all_clients
          (failing \<lparr>err_status = JNum 429, err_response = JUndefined,
                     err_message = Some ''429 Rate limit reached for requests''\<rparr>)
          \<lparr>name = ''chat_conversation'',
           arguments = Some [(''messages'', JArr [JObj [(''role'', JStr ''user''), (''content'', JStr ''hi'')]]),
                             (''provider'', JStr ''openai'')]\<rparr>)
     = Returns (text_response (JStr ''Error: 429 Rate limit reached for requests''))
   \<and> \<not> includes_str ''Error: 429 Rate limit reached for requests'' ''Rate limit exceeded''
   \<and> \<not> includes_str ''Error: 429 Rate limit reached for requests'' ''openai''"
  by (simp add: handler_defs)

text \<open>
  What the \<^verbatim>\<open>catch\<close> blocks do with the error they are given, for both tools: the error is
  caught and a response is returned; its text is \<^verbatim>\<open>Error: \<close> followed by the sentence for 401
  when \<^verbatim>\<open>error.response.status\<close> is 401, else by the sentence for 429 when it is 429, else by
  the error's own message when it has a non-empty one, else by the fallback of the tool.
\<close>

lemma catch_block_classification:
  assumes "passes_validation request a" and "getAvailableProviders cs = first # rest"
    and "p = selectedProvider (own_prop a ''provider'') (first # rest) first"
    and "clients_get cs p = Some c"
    and "\<forall>ps. create c ps = Rejects e"
    and "status = opt_prop (err_response e) ''status''"
  shows "\<exists>t. fst (handleToolCall cs create request) = Returns (text_response (JStr t)) \<and>
           (status = JNum 401 \<longrightarrow>
              t = ''Error: Authentication failed for '' @ p @ ''. Please check your API key.'' \<and>
              includes_str t ''Authentication failed'' \<and> includes_str t p) \<and>
           (status \<noteq> JNum 401 \<and> status = JNum 429 \<longrightarrow>
              t = ''Error: Rate limit exceeded for '' @ p @ ''. Please try again later.'' \<and>
              includes_str t ''Rate limit exceeded'' \<and> includes_str t p) \<and>
           (status \<noteq> JNum 401 \<and> status \<noteq> JNum 429 \<longrightarrow>
              (\<forall>m. err_message e = Some m \<and> m \<noteq> [] \<longrightarrow> t = ''Error: '' @ m) \<and>
              (err_message e = None \<or> err_message e = Some [] \<longrightarrow>
                 t = ''Error: '' @ fallback_message request))"
proof -
  have out: "fst (handleToolCall cs create request) =
               Returns (error_reply (fallback_message request) p e)"
    using assms(1-5) by (rule handleToolCall_rejected)
  consider (auth) "status = JNum 401"
    | (rate) "status \<noteq> JNum 401" "status = JNum 429"
    | (other) "status \<noteq> JNum 401" "status \<noteq> JNum 429"
    by blast
  then show ?thesis
  proof cases
    case auth
    then show ?thesis
      unfolding out error_reply_def assms(6) [symmetric]
      using auth_text_includes [of p] by (simp del: includes_str.simps)
  next
    case rate
    then show ?thesis
      unfolding out error_reply_def assms(6) [symmetric]
      using rate_text_includes [of p] by (simp del: includes_str.simps)
  next
    case other
    then show ?thesis
      unfolding out error_reply_def assms(6) [symmetric]
      by (cases "err_message e") simp_all
  qed
qed

lemma catch_block_classification_example:
  "fst (handleToolCall all_clients
          (failing \<lparr>err_status = JUndefined, err_response = JObj [(''status'', JNum 401)],
             err_message = Some ''Unauthorized''\<rparr>)
          \<lparr>name = ''generate_text'',
           arguments = Some [(''prompt'', JStr ''hi''), (''provider'', JStr ''openai'')]\<rparr>)
   = Returns (text_response
       (JStr ''Error: Authentication failed for openai. Please check your API key.''))"
proof -
  let ?a = "[(''prompt'', JStr ''hi''), (''provider'', JStr ''openai'')]"
  let ?r = "\<lparr>name = ''generate_text'', arguments = Some ?a\<rparr>"
  let ?e = "\<lparr>err_status = JUndefined, err_response = JObj [(''status'', JNum 401)],
             err_message = Some ''Unauthorized''\<rparr>"
  let ?c = "\<lparr>baseURL = None, apiKey = ''sk_key'', defaultHeaders = []\<rparr>"
  have v: "passes_validation ?r ?a"
    by (simp add: passes_validation_def own_prop_def)
  have p: "''openai'' = selectedProvider (own_prop ?a ''provider'')
             (''huggingface'' # [''openai'', ''anthropic'']) ''huggingface''"
    by (simp add: selectedProvider_def own_prop_def)
  have c: "clients_get all_clients ''openai'' = Some ?c"
    by (simp add: clients_get_def all_clients_def init_clients_def)
  have rej: "\<forall>ps. failing ?e ?c ps = Rejects ?e"
    by (simp add: failing_def)
  have st: "JNum 401 = opt_prop (err_response ?e) ''status''"
    by (simp add: own_prop_def)
  from catch_block_classification [where create = "failing ?e" and c = ?c and e = ?e,
      OF v all_clients_available p c rej st]
  obtain t where out: "fst (handleToolCall all_clients (failing ?e) ?r)
                         = Returns (text_response (JStr t))"
    and auth: "JNum 401 = JNum 401 \<longrightarrow>
                 t = ''Error: Authentication failed for '' @ ''openai'' @ ''. Please check your API key.'' \<and>
                 includes_str t ''Authentication failed'' \<and> includes_str t ''openai''"
    by (elim exE conjE)
  from auth [THEN mp, OF refl, THEN conjunct1]
  have "t = ''Error: Authentication failed for openai. Please check your API key.''"
    by simp
  with out show ?thesis by (simp only:)
qed

text \<open>The error's message is returned after the prefix \<^verbatim>\<open>Error: \<close>, not as the whole text.\<close>

lemma error_message_prefixed:
  "fst (handleToolCall all_clients
          (failing \<lparr>err_status = JUndefined, err_response = JUndefined, err_message = Some ''boom''\<rparr>)
          \<lparr>name = ''generate_text'', arguments = Some [(''prompt'', JStr ''hi'')]\<rparr>)
   = Returns (text_response (JStr ''Error: boom''))
   \<and> fst (handleToolCall all_clients
          (failing \<lparr>err_status = JUndefined, err_response = JUndefined, err_message = Some ''boom''\<rparr>)
          \<lparr>name = ''generate_text'', arguments = Some [(''prompt'', JStr ''hi'')]\<rparr>)
   \<noteq> Returns (text_response (JStr ''boom''))"
  by (simp add: handler_defs)





section \<open>The model listing\<close>

text \<open>
  Claim C9. When at least one provider is available, \<^verbatim>\<open>list_models\<close> returns a text and calls
  no backend. The text has one heading per available provider, in the order of availability;
  every model of every available provider's catalog is entered on exactly one line; the entry
  carries the mark \<^verbatim>\<open>(default)\<close> exactly when the model is the provider's default model; and
  exactly one model of each catalog is that default.
\<close>

theorem list_models_catalog:
  assumes "name request = ''list_models''" and "getAvailableProviders cs \<noteq> []"
  shows "\<exists>t. handleToolCall cs create request = (Returns (text_response (JStr t)), [])
       \<and> headings t = map (\<lambda>p. ''**'' @ toUpperCase p @ '':**'') (getAvailableProviders cs)
       \<and> (\<forall>p \<in> set (getAvailableProviders cs). \<forall>m \<in> set (modelsFor p).
             listed t m = 1 \<and>
             marked_default t m = (if JStr m = getDefaultModel p then 1 else 0))
       \<and> (\<forall>p \<in> set (getAvailableProviders cs).
             length (filter (\<lambda>m. JStr m = getDefaultModel p) (modelsFor p)) = 1)"
proof -
  from assms(2) obtain first rest where avail: "getAvailableProviders cs = first # rest"
    by (cases "getAvailableProviders cs") simp_all
  from available_renders [OF assms(2)]
  obtain t where t: "provider_blocks (getAvailableProviders cs) ''Available AI Models:\<newline>\<newline>'' = Inr t"
    and r: "catalog_rendered (getAvailableProviders cs) t"
    unfolding renders_catalog_def by (auto split: sum.splits)
  have "handleToolCall cs create request = (Returns (text_response (JStr t)), [])"
    using assms(1) t avail by (simp add: handleToolCall_def list_models_def)
  with r show ?thesis
    unfolding catalog_rendered_def by blast
qed

theorem list_models_catalog_witness:
  "\<exists>t. handleToolCall all_clients (replying JNull) \<lparr>name = ''list_models'', arguments = None\<rparr>
          = (Returns (text_response (JStr t)), [])
       \<and> listed t ''gpt-4o'' = 1 \<and> marked_default t ''gpt-4o'' = 0
       \<and> listed t ''gpt-4o-mini'' = 1 \<and> marked_default t ''gpt-4o-mini'' = 1"
proof -
  let ?r = "\<lparr>name = ''list_models'', arguments = None\<rparr>"
  have n: "name ?r = ''list_models''" by simp
  have av: "getAvailableProviders all_clients \<noteq> []"
    by (simp add: all_clients_available)
  from list_models_catalog [OF n av, of "replying JNull"]
  obtain t where out: "handleToolCall all_clients (replying JNull) ?r
                         = (Returns (text_response (JStr t)), [])"
    and ent: "\<forall>p \<in> set (getAvailableProviders all_clients). \<forall>m \<in> set (modelsFor p).
                listed t m = 1 \<and>
                marked_default t m = (if JStr m = getDefaultModel p then 1 else 0)"
    by (elim exE conjE)
  have p: "''openai'' \<in> set (getAvailableProviders all_clients)"
    by (simp add: all_clients_available)
  have m1: "''gpt-4o'' \<in> set (modelsFor ''openai'')"
    and m2: "''gpt-4o-mini'' \<in> set (modelsFor ''openai'')"
    by (simp_all add: modelsFor_def MODELS_def)
  from ent [THEN bspec, OF p, THEN bspec, OF m1]
  have e1: "listed t ''gpt-4o'' = 1 \<and> marked_default t ''gpt-4o'' = 0"
    by (simp add: getDefaultModel_def)
  from ent [THEN bspec, OF p, THEN bspec, OF m2]
  have e2: "listed t ''gpt-4o-mini'' = 1 \<and> marked_default t ''gpt-4o-mini'' = 1"
    by (simp add: getDefaultModel_def)
  from out e1 e2 show ?thesis by (intro exI [of _ t]) simp
qed


end
